theory Spec2Isabelle
  imports Main "HOL-Library.Char_ord" "HOL-Library.List_Lexorder"
begin

section \<open>Promises\<close>

text \<open>
  The script composes its work from when.js promises. A settled promise is either
  resolved with a value or rejected with a reason. The reasons the script itself
  produces are a converter exit status (\<open>when.reject(returnCode)\<close>) and two messages;
  \<open>Failure\<close> stands for an error raised by a collaborator or by the runtime
  (a rejected transfer, a \<open>TypeError\<close>), and \<open>Uncaught\<close> for an error event that no
  promise captures, which ends the process.
\<close>

datatype reason = ReturnCode int | Message string | Failure string | Uncaught string

datatype 'a promise = Resolved 'a | Rejected reason

fun resolved :: "'a promise \<Rightarrow> bool" where
  "resolved (Resolved v) = True"
| "resolved (Rejected e) = False"

section \<open>Temporal model\<close>

text \<open>
  Modelled from the spec: the module \<open>gfs.js\<close> (cycles, products, layers and their
  arithmetic) is not among the sources. A cycle is a model run identified by a
  reference time on a six-hour boundary, \<open>previous\<close> and \<open>next\<close> move by six hours,
  a product is a (type, cycle, forecast hour) triple and a layer a
  (recipe, product, is-current) triple whose \<open>previous\<close> sibling is obtained through
  the cycle arithmetic of its product. Times are milliseconds since the epoch.
\<close>

definition HOUR :: int where
  "HOUR = 3600000"

datatype cycle = Cycle (cycle_date: int)

definition gfs_cycle :: "int \<Rightarrow> cycle" where
  "gfs_cycle t = Cycle (t - t mod (6 * HOUR))"

definition cycle_next :: "cycle \<Rightarrow> cycle" where
  "cycle_next c = Cycle (cycle_date c + 6 * HOUR)"

definition cycle_previous :: "cycle \<Rightarrow> cycle" where
  "cycle_previous c = Cycle (cycle_date c - 6 * HOUR)"

record product =
  ptype :: string
  pcycle :: cycle
  forecastHour :: nat

definition gfs_product :: "string \<Rightarrow> cycle \<Rightarrow> nat \<Rightarrow> product" where
  "gfs_product t c fh = \<lparr>ptype = t, pcycle = c, forecastHour = fh\<rparr>"

definition product_date :: "product \<Rightarrow> int" where
  "product_date p = cycle_date (pcycle p) + int (forecastHour p) * HOUR"

definition product_previous :: "product \<Rightarrow> product" where
  "product_previous p = p\<lparr>pcycle := cycle_previous (pcycle p)\<rparr>"

record recipe =
  rname :: string
  rfilter :: string
  rdescription :: string

record layer =
  lrecipe :: recipe
  lproduct :: product
  isCurrent :: bool

definition gfs_layer :: "recipe \<Rightarrow> product \<Rightarrow> bool \<Rightarrow> layer" where
  "gfs_layer r p cur = \<lparr>lrecipe = r, lproduct = p, isCurrent = cur\<rparr>"

definition layer_previous :: "layer \<Rightarrow> layer" where
  "layer_previous l = l\<lparr>lproduct := product_previous (lproduct l)\<rparr>"

section \<open>Files, remote objects and the collaborators\<close>

text \<open>
  A layer file is a JSON array of records; record 0 carries the header with
  \<open>refTime\<close> and \<open>forecastTime\<close>, and extraction adds \<open>meta.date\<close> to every record.
  A downloaded product is an opaque GRIB file.
\<close>

record jheader =
  refTime :: string
  forecastTime :: nat

record jrecord =
  header :: jheader
  rdata :: string
  meta_date :: "string option"

datatype filedata = Grib string | Json "jrecord list"

text \<open>What the content store reports about an existing object.\<close>

record s3object =
  Metadata :: "(string \<rightharpoonup> string) option"
  Body :: filedata
  CacheControl :: string

record download_result =
  statusCode :: int
  received :: int
  duration :: int

record dom =
  texts :: "string list"
  hrefs :: "string list"

text \<open>
  The collaborators that are not among the sources (\<open>tool.js\<close>, \<open>gfs.js\<close>, \<open>aws.js\<close>,
  \<open>scraper.js\<close>), the JavaScript \<open>Date\<close> and the outside world are parameters of the
  model. \<open>parseDate\<close> is \<open>new Date(s)\<close> with \<open>None\<close> for an invalid date,
  \<open>tool_download\<close> gives the outcome of a transfer and the bytes it delivered,
  \<open>grib2json\<close> gives the converter's exit status and the records it wrote
  (\<open>None\<close> when its output does not parse), \<open>productRel\<close> and \<open>layerRel\<close> are the path of
  a product and of a layer below their parent directory.
\<close>

record env =
  parseDate :: "string \<Rightarrow> int option"
  toISOString :: "int \<Rightarrow> string"
  productFile :: "product \<Rightarrow> string"
  productRel :: "product \<Rightarrow> string"
  layerRel :: "layer \<Rightarrow> string"
  cacheControlFor :: "layer \<Rightarrow> string"
  cycleOfDir :: "string \<Rightarrow> string \<Rightarrow> string \<Rightarrow> string \<Rightarrow> cycle"
  server_NOMADS :: string
  server_NCEP :: string
  S3_LAYER_HOME :: string
  S3_BUCKET :: string
  tool_download :: "string \<Rightarrow> (download_result \<times> string) promise"
  grib2json :: "string \<Rightarrow> (int \<times> jrecord list option) promise"
  scraper_fetch :: "string \<Rightarrow> dom promise"
  createTemp :: "string \<Rightarrow> string"

text \<open>
  Modelled from the spec: a path is the parent directory followed by the name derived
  from the object (\<open>{home}/...\<close>; the homes end in a slash).
\<close>

definition product_path :: "env \<Rightarrow> product \<Rightarrow> string \<Rightarrow> string" where
  "product_path e p parent = parent @ productRel e p"

definition layer_path :: "env \<Rightarrow> layer \<Rightarrow> string \<Rightarrow> string" where
  "layer_path e l parent = parent @ layerRel e l"

record options =
  gribHome :: string
  layerHome :: string
  productType :: string
  firstForecasts :: "nat list"

text \<open>
  The mutable state: the files below the working directory, the pool of servers,
  the content store, and two logs that record the requests sent to the network and
  the uploads, each with its key and the bytes sent.
\<close>

record world =
  disk :: "string \<rightharpoonup> filedata"
  servers :: "string list"
  s3 :: "string \<times> string \<rightharpoonup> s3object"
  requests :: "string list"
  puts :: "(string \<times> filedata) list"

text \<open>
  The homes are paths relative to the working directory, as in the usage given in the
  header of the script, so that a leading \<open>./\<close> names the same file.
\<close>

fun fs_path :: "string \<Rightarrow> string" where
  "fs_path (a # b # p) = (if a = CHR ''.'' \<and> b = CHR ''/'' then fs_path p else a # b # p)"
| "fs_path p = p"

definition existsSync :: "world \<Rightarrow> string \<Rightarrow> bool" where
  "existsSync w p = (disk w (fs_path p) \<noteq> None)"

text \<open>
  Modelled from the spec: \<open>tool.readJSONSync\<close> of \<open>tool.js\<close>, which is not among the
  sources, reads a file and parses it as a JSON array of records; \<open>None\<close> stands for
  the exception it throws when the file is missing or is no such array.
\<close>

definition readJSONSync :: "world \<Rightarrow> string \<Rightarrow> jrecord list option" where
  "readJSONSync w p = (case disk w (fs_path p) of Some (Json rs) \<Rightarrow> Some rs | _ \<Rightarrow> None)"

text \<open>
  Comparisons of a \<open>Date\<close> with a time: an invalid date is \<open>NaN\<close>, and every
  comparison with \<open>NaN\<close> is false.
\<close>

definition js_lt :: "int option \<Rightarrow> int \<Rightarrow> bool" where
  "js_lt d t = (case d of None \<Rightarrow> False | Some u \<Rightarrow> u < t)"


text \<open>\<open>new Date(v)\<close> for a value that may be \<open>undefined\<close>, and the truthiness of such a value.\<close>

definition new_Date :: "env \<Rightarrow> string option \<Rightarrow> int option" where
  "new_Date e v = (case v of None \<Rightarrow> None | Some s \<Rightarrow> parseDate e s)"

definition truthy :: "string option \<Rightarrow> bool" where
  "truthy v = (case v of None \<Rightarrow> False | Some s \<Rightarrow> s \<noteq> [])"

text \<open>
  \<open>when.map\<close>: every item is mapped (nothing is cancelled), and the result is rejected
  as soon as one item is rejected, with the reason of the first rejection; otherwise it
  is resolved with the list of the items' values. The model runs the items one after
  the other, in the order of the list; the guards \<open>guard.n\<close>, which only bound the
  number of items that run at the same time, are not modelled.
\<close>

definition settle :: "'b promise \<Rightarrow> 'b list promise \<Rightarrow> 'b list promise" where
  "settle r rs =
     (case r of Rejected x \<Rightarrow> Rejected x
      | Resolved v \<Rightarrow> (case rs of Rejected x \<Rightarrow> Rejected x | Resolved vs \<Rightarrow> Resolved (v # vs)))"

fun when_map :: "('a \<Rightarrow> 'w \<Rightarrow> 'b promise \<times> 'w) \<Rightarrow> 'a list \<Rightarrow> 'w \<Rightarrow> 'b list promise \<times> 'w" where
  "when_map f [] w = (Resolved [], w)"
| "when_map f (x # xs) w =
     (let (r, w1) = f x w; (rs, w2) = when_map f xs w1 in (settle r rs, w2))"




section \<open>The recipes\<close>


definition LAYER_RECIPES :: "(string \<times> recipe) list" where
  "LAYER_RECIPES =
    [(''wi10'', \<lparr>rname = ''wind-isobaric-10hPa'',
                 rfilter = ''--fc 2 --fp wind --fs 100 --fv 1000'',
                 rdescription = ''Wind Velocity @ 10 hPa''\<rparr>),
     (''wi70'', \<lparr>rname = ''wind-isobaric-70hPa'',
                 rfilter = ''--fc 2 --fp wind --fs 100 --fv 7000'',
                 rdescription = ''Wind Velocity @ 70 hPa''\<rparr>),
     (''wi250'', \<lparr>rname = ''wind-isobaric-250hPa'',
                  rfilter = ''--fc 2 --fp wind --fs 100 --fv 25000'',
                  rdescription = ''Wind Velocity @ 250 hPa''\<rparr>),
     (''wi500'', \<lparr>rname = ''wind-isobaric-500hPa'',
                  rfilter = ''--fc 2 --fp wind --fs 100 --fv 50000'',
                  rdescription = ''Wind Velocity @ 500 hPa''\<rparr>),
     (''wi700'', \<lparr>rname = ''wind-isobaric-700hPa'',
                  rfilter = ''--fc 2 --fp wind --fs 100 --fv 70000'',
                  rdescription = ''Wind Velocity @ 700 hPa''\<rparr>),
     (''wi850'', \<lparr>rname = ''wind-isobaric-850hPa'',
                  rfilter = ''--fc 2 --fp wind --fs 100 --fv 85000'',
                  rdescription = ''Wind Velocity @ 850 hPa''\<rparr>),
     (''wi1000'', \<lparr>rname = ''wind-isobaric-1000hPa'',
                   rfilter = ''--fc 2 --fp wind --fs 100 --fv 100000'',
                   rdescription = ''Wind Velocity @ 1000 hPa''\<rparr>)]"

text \<open>\<open>LAYER_RECIPES.wi1000\<close>, the anchor recipe of the current-pointer search.\<close>

definition wi1000 :: recipe where
  "wi1000 = \<lparr>rname = ''wind-isobaric-1000hPa'',
             rfilter = ''--fc 2 --fp wind --fs 100 --fv 100000'',
             rdescription = ''Wind Velocity @ 1000 hPa''\<rparr>"

text \<open>The forecast hours of the first cycle: \<open>[0]\<close> followed by \<open>i * 3\<close> for \<open>i = 1 .. depth\<close>.\<close>

definition opt_firstForecasts :: "nat \<Rightarrow> nat list" where
  "opt_firstForecasts depth = 0 # map (\<lambda>i. i * 3) [1..<Suc depth]"

section \<open>The server pool\<close>

definition initial_servers :: "env \<Rightarrow> string list" where
  "initial_servers e = [server_NOMADS e, server_NCEP e]"

definition nextServer :: "env \<Rightarrow> world \<Rightarrow> string \<times> world" where
  "nextServer e w =
     (if length (servers w) = 0 then (server_NOMADS e, w)
      else (last (servers w), w\<lparr>servers := butlast (servers w)\<rparr>))"

definition releaseServer :: "string \<Rightarrow> world \<Rightarrow> world" where
  "releaseServer server w = w\<lparr>servers := servers w @ [server]\<rparr>"

section \<open>The fetch stage\<close>

text \<open>
  \<open>download(product)\<close>. The handlers given to \<open>then\<close> are one for the fulfilled transfer
  and one for its progress; there is none for a rejected transfer, whose rejection
  therefore becomes the result. The temporary file and the ten-second delay are not
  modelled.
\<close>

definition download :: "env \<Rightarrow> options \<Rightarrow> product \<Rightarrow> world \<Rightarrow> product promise \<times> world" where
  "download e opt p w =
     (let localPath = product_path e p (gribHome opt) in
      if existsSync w localPath then (Resolved p, w)
      else
        (let (server, w1) = nextServer e w;
             remotePath = product_path e p (''http://'' @ server);
             w2 = w1\<lparr>requests := requests w1 @ [remotePath]\<rparr>
         in case tool_download e remotePath of
              Rejected x \<Rightarrow> (Rejected x, w2)
            | Resolved (result, body) \<Rightarrow>
                (let w3 = releaseServer server w2 in
                 if statusCode result \<ge> 300 then (Resolved p, w3)
                 else (Resolved p, w3\<lparr>disk := (disk w3)(fs_path localPath \<mapsto> Grib body)\<rparr>))))"

section \<open>The extract stage\<close>








section \<open>The publish stage\<close>

text \<open>
  \<open>isNewerThan(existing)\<close>, the closure of \<open>pushLayer\<close>:
  \<open>!refTime || new Date(refTime) < layer.product.cycle.date() || layer.isCurrent\<close>,
  where \<open>refTime\<close> is the entry \<open>reference-time\<close> of \<open>existing.Metadata || {}\<close>.
  The result is read for its truthiness: \<open>!refTime\<close> holds of a missing entry and of
  the empty string.
\<close>

definition isNewerThan :: "env \<Rightarrow> layer \<Rightarrow> s3object \<Rightarrow> bool" where
  "isNewerThan e l existing =
     (let refTime = (case Metadata existing of None \<Rightarrow> Map.empty | Some m \<Rightarrow> m) ''reference-time''
      in \<not> truthy refTime
         \<or> js_lt (new_Date e refTime) (cycle_date (pcycle (lproduct l)))
         \<or> isCurrent l)"

text \<open>
  Modelled from the spec: \<open>aws.uploadFile(localPath, bucket, key, metadataMap,
  shouldOverwritePredicate(existingMetadata), cacheControlPolicy)\<close> of \<open>aws.js\<close>, which is
  not among the sources. The file is uploaded when there is no object under the key, or
  when the predicate holds of the existing object; otherwise the object is left as it is.
\<close>

datatype upload_result = Uploaded | Unchanged

definition uploadFile ::
  "string \<Rightarrow> string \<Rightarrow> string \<Rightarrow> (string \<rightharpoonup> string) \<Rightarrow> (s3object \<Rightarrow> bool) \<Rightarrow> string
   \<Rightarrow> world \<Rightarrow> upload_result promise \<times> world" where
  "uploadFile path bucket key metadata predicate cacheControl w =
     (case disk w (fs_path path) of
        None \<Rightarrow> (Rejected (Failure ''ENOENT''), w)
      | Some bytes \<Rightarrow>
          if (case s3 w (bucket, key) of None \<Rightarrow> True | Some existing \<Rightarrow> predicate existing)
          then (Resolved Uploaded,
                w\<lparr>s3 := (s3 w)((bucket, key) \<mapsto>
                         \<lparr>Metadata = Some metadata, Body = bytes, CacheControl = cacheControl\<rparr>),
                  puts := puts w @ [(key, bytes)]\<rparr>)
          else (Resolved Unchanged, w))"

text \<open>\<open>pushLayer(layer)\<close>; a \<open>null\<close> layer and a \<open>null\<close> result are \<open>None\<close>.\<close>

definition pushLayer :: "env \<Rightarrow> options \<Rightarrow> layer option \<Rightarrow> world \<Rightarrow> bool option promise \<times> world" where
  "pushLayer e opt lo w =
     (case lo of
        None \<Rightarrow> (Resolved None, w)
      | Some l \<Rightarrow>
          (let layerPath = layer_path e l (layerHome opt) in
           if \<not> existsSync w layerPath then (Resolved None, w)
           else
             (let key = layer_path e l (S3_LAYER_HOME e);
                  metadata = [''reference-time'' \<mapsto> toISOString e (cycle_date (pcycle (lproduct l)))];
                  cacheControl = cacheControlFor e l
              in case uploadFile layerPath (S3_BUCKET e) key metadata (isNewerThan e l) cacheControl w of
                   (Rejected x, w') \<Rightarrow> (Rejected x, w')
                 | (Resolved result, w') \<Rightarrow> (Resolved (Some True), w'))))"

definition pushLayers :: "env \<Rightarrow> options \<Rightarrow> layer option list \<Rightarrow> world \<Rightarrow> bool option list promise \<times> world" where
  "pushLayers e opt layers w = when_map (pushLayer e opt) layers w"

section \<open>Discovery\<close>

definition substr :: "string \<Rightarrow> nat \<Rightarrow> nat \<Rightarrow> string" where
  "substr s i n = take n (drop i s)"

definition is_digit :: "char \<Rightarrow> bool" where
  "is_digit c = (CHR ''0'' \<le> c \<and> c \<le> CHR ''9'')"

text \<open>The strings of the form \<open>gfs\.\d{10}\/\<close>.\<close>

definition is_cycle_dir :: "string \<Rightarrow> bool" where
  "is_cycle_dir s =
     (length s = 15 \<and> take 4 s = ''gfs.'' \<and> list_all is_digit (take 10 (drop 4 s))
      \<and> drop 14 s = ''/'')"

text \<open>
  Modelled from the spec: \<open>scraper.matchText(pattern, document)\<close>, the ordered sequence of
  the match groups of the document's texts, for the pattern \<open>/gfs\.\d{10}\/$/\<close>: a text
  matches when its last 15 characters have that form, and they are group 0.
  \<open>scraper.extractAttributes("a", "href", document)\<close> is the field \<open>hrefs\<close>.
\<close>

definition matchText_dirs :: "dom \<Rightarrow> string list list" where
  "matchText_dirs d =
     List.map_filter
       (\<lambda>t. let m = drop (length t - 15) t in if is_cycle_dir m then Some [m] else None)
       (texts d)"

text \<open>\<open>_.uniq\<close> keeps the first occurrence of every element.\<close>

definition underscore_uniq :: "'a list \<Rightarrow> 'a list" where
  "underscore_uniq xs = rev (remdups (rev xs))"

definition underscore_intersection :: "'a list \<Rightarrow> 'a list \<Rightarrow> 'a list" where
  "underscore_intersection xs ys = filter (\<lambda>x. x \<in> set ys) (underscore_uniq xs)"

definition underscore_last :: "'a list \<Rightarrow> nat \<Rightarrow> 'a list" where
  "underscore_last xs n = drop (length xs - n) xs"

definition expectedFiles :: "env \<Rightarrow> string \<Rightarrow> cycle \<Rightarrow> nat list \<Rightarrow> string list" where
  "expectedFiles e prodType c forecasts =
     map (\<lambda>forecastHour. productFile e (gfs_product prodType c forecastHour)) forecasts"

definition dir_cycle :: "env \<Rightarrow> string \<Rightarrow> cycle" where
  "dir_cycle e dir = cycleOfDir e (substr dir 4 4) (substr dir 8 2) (substr dir 10 2) (substr dir 12 2)"

definition checkProductsExist ::
  "env \<Rightarrow> string \<Rightarrow> string \<Rightarrow> string \<Rightarrow> nat list \<Rightarrow> world \<Rightarrow> cycle option promise \<times> world" where
  "checkProductsExist e url dir prodType forecasts w =
     (let c = dir_cycle e dir;
          expected = expectedFiles e prodType c forecasts;
          w1 = w\<lparr>requests := requests w @ [url @ dir]\<rparr>
      in case scraper_fetch e (url @ dir) of
           Rejected x \<Rightarrow> (Rejected x, w1)
         | Resolved d \<Rightarrow>
             (let allFiles = hrefs d;
                  actualFiles = underscore_intersection expected allFiles
              in (Resolved (if length actualFiles = length expected then Some c else None), w1)))"

text \<open>
  The recursive \<open>check\<close> of \<open>inspectRecentCycles\<close>, with the counter \<open>i\<close> as an argument:
  \<open>dirs[--i]\<close> while \<open>i > 0\<close>.
\<close>

fun check ::
  "env \<Rightarrow> string \<Rightarrow> string \<Rightarrow> nat list \<Rightarrow> string list \<Rightarrow> nat \<Rightarrow> world \<Rightarrow> cycle promise \<times> world" where
  "check e url prodType forecasts dirs 0 w =
     (Rejected (Message ''cannot find most recent cycle''), w)"
| "check e url prodType forecasts dirs (Suc i) w =
     (if i < length dirs then
        (case checkProductsExist e url (dirs ! i) prodType forecasts w of
           (Rejected x, w') \<Rightarrow> (Rejected x, w')
         | (Resolved (Some c), w') \<Rightarrow> (Resolved c, w')
         | (Resolved None, w') \<Rightarrow> check e url prodType forecasts dirs i w')
      else (Rejected (Failure ''TypeError''), w))"

definition inspectRecentCycles ::
  "env \<Rightarrow> string \<Rightarrow> string \<Rightarrow> nat list \<Rightarrow> world \<Rightarrow> cycle promise \<times> world" where
  "inspectRecentCycles e url prodType forecasts w =
     (let w1 = w\<lparr>requests := requests w @ [url]\<rparr>
      in case scraper_fetch e url of
           Rejected x \<Rightarrow> (Rejected x, w1)
         | Resolved d \<Rightarrow>
             (let dirs = map (\<lambda>n. n ! 0) (matchText_dirs d);
                  dirs3 = underscore_last (sort dirs) 3
              in check e url prodType forecasts dirs3 (length dirs3) w1))"

text \<open>\<open>findMostRecent\<close> releases its server in \<open>ensure\<close>, whatever the outcome.\<close>

definition findMostRecent :: "env \<Rightarrow> options \<Rightarrow> world \<Rightarrow> cycle promise \<times> world" where
  "findMostRecent e opt w =
     (let (server, w1) = nextServer e w;
          (r, w2) = inspectRecentCycles e (''http://'' @ server) (productType opt) (firstForecasts opt) w1
      in (r, releaseServer server w2))"

section \<open>The current-pointer manager\<close>

definition unlinkSync :: "string \<Rightarrow> world \<Rightarrow> world" where
  "unlinkSync p w = w\<lparr>disk := (disk w)(fs_path p := None)\<rparr>"

text \<open>The first loop of \<open>copyCurrent\<close>: back from the next cycle while the product is in the future.\<close>

function backToNow :: "int \<Rightarrow> layer \<Rightarrow> layer" where
  "backToNow now l =
     (if product_date (lproduct l) > now then backToNow now (layer_previous l) else l)"
  by pat_completeness auto
termination
  by (relation "measure (\<lambda>(now, l). nat (product_date (lproduct l) - now))")
     (auto simp: layer_previous_def product_previous_def product_date_def cycle_previous_def HOUR_def)

text \<open>
  The second loop: back until the layer exists on disk; \<open>None\<close> is the early return
  \<open>when.reject("No recent layers found.")\<close>.
\<close>

function searchDisk :: "env \<Rightarrow> options \<Rightarrow> world \<Rightarrow> int \<Rightarrow> layer \<Rightarrow> layer option" where
  "searchDisk e opt w threeDaysAgo l =
     (if \<not> existsSync w (layer_path e l (layerHome opt)) then
        (if product_date (lproduct (layer_previous l)) < threeDaysAgo then None
         else searchDisk e opt w threeDaysAgo (layer_previous l))
      else Some l)"
  by pat_completeness auto
termination
  by (relation "measure (\<lambda>(e, opt, w, threeDaysAgo, l). nat (product_date (lproduct l) - threeDaysAgo))")
     (auto simp: layer_previous_def product_previous_def product_date_def cycle_previous_def HOUR_def)

declare backToNow.simps [simp del]

declare searchDisk.simps [simp del]

text \<open>
  The body of the \<open>map\<close> over the recipes: the alias file is removed if it exists and
  the dated file is piped into it. When the dated file cannot be opened the write
  stream has already created an empty alias file, the promise is never resolved and
  the read stream's error event has no listener.
\<close>

definition copyLayer :: "env \<Rightarrow> options \<Rightarrow> product \<Rightarrow> recipe \<Rightarrow> world \<Rightarrow> layer promise \<times> world" where
  "copyLayer e opt p r w =
     (let src = gfs_layer r p False;
          dest = gfs_layer r p True;
          destPath = layer_path e dest (layerHome opt);
          w1 = (if existsSync w destPath then unlinkSync destPath w else w)
      in case disk w1 (fs_path (layer_path e src (layerHome opt))) of
           None \<Rightarrow> (Rejected (Uncaught ''ENOENT''), w1\<lparr>disk := (disk w1)(fs_path destPath \<mapsto> Grib [])\<rparr>)
         | Some bytes \<Rightarrow> (Resolved dest, w1\<lparr>disk := (disk w1)(fs_path destPath \<mapsto> bytes)\<rparr>))"

definition copyCurrent :: "env \<Rightarrow> options \<Rightarrow> int \<Rightarrow> world \<Rightarrow> bool option list promise \<times> world" where
  "copyCurrent e opt now w =
     (let threeDaysAgo = now - 3 * 24 * 60 * 60 * 1000;
          first = gfs_layer wi1000 (gfs_product (productType opt) (cycle_next (gfs_cycle now)) 0) False
      in case searchDisk e opt w threeDaysAgo (backToNow now first) of
           None \<Rightarrow> (Rejected (Message ''No recent layers found.''), w)
         | Some mostRecentLayer \<Rightarrow>
             (case readJSONSync w (layer_path e mostRecentLayer (''./'' @ layerHome opt)) of
                None \<Rightarrow> (Rejected (Failure ''readJSONSync''), w)
              | Some [] \<Rightarrow> (Rejected (Failure ''TypeError''), w)
              | Some (r # rs) \<Rightarrow>
                  (case parseDate e (refTime (header r)) of
                     None \<Rightarrow> (Rejected (Failure ''InvalidTimestamp''), w)
                   | Some t \<Rightarrow>
                       (let p = gfs_product (productType opt) (gfs_cycle t) (forecastTime (header r))
                        in case when_map (copyLayer e opt p) (map snd LAYER_RECIPES) w of
                             (Rejected x, w1) \<Rightarrow> (Rejected x, w1)
                           | (Resolved layers, w1) \<Rightarrow> pushLayers e opt (map Some layers) w1))))"

section \<open>A concrete environment\<close>

text \<open>
  The theorems hold for every environment. Their instances are evaluated in the
  environment of this section: dates in the format that \<open>toISOString\<close> writes
  (\<open>YYYY-MM-DDTHH:mm:ss.sssZ\<close>; every other string is an invalid date), and the path
  layout of the spec, \<open>gfs.{YYYYMMDDHH}/gfs.t{HH}z.{productType}.f{forecastHour}\<close> for
  products, \<open>{YYYY}/{MM}/{DD}/{HHmm}-{forecastHour}-{recipeName}.json\<close> for dated
  layers and \<open>current/current-{recipeName}.json\<close> for the alias layers.
\<close>

definition digit_val :: "char \<Rightarrow> int option" where
  "digit_val c = map_of (zip ''0123456789'' [0, 1, 2, 3, 4, 5, 6, 7, 8, 9]) c"

definition digit_char :: "int \<Rightarrow> char" where
  "digit_char d = ''0123456789'' ! nat (d mod 10)"

fun number :: "string \<Rightarrow> int \<Rightarrow> int option" where
  "number [] acc = Some acc"
| "number (c # cs) acc = (case digit_val c of None \<Rightarrow> None | Some d \<Rightarrow> number cs (10 * acc + d))"

definition pad2 :: "int \<Rightarrow> string" where
  "pad2 n = [digit_char (n div 10), digit_char n]"

definition pad3 :: "int \<Rightarrow> string" where
  "pad3 n = [digit_char (n div 100), digit_char (n div 10), digit_char n]"

definition pad4 :: "int \<Rightarrow> string" where
  "pad4 n = [digit_char (n div 1000), digit_char (n div 100), digit_char (n div 10), digit_char n]"

fun decimal :: "nat \<Rightarrow> string" where
  "decimal n = (if n < 10 then [digit_char (int n)] else decimal (n div 10) @ [digit_char (int n)])"

definition days_from_civil :: "int \<Rightarrow> int \<Rightarrow> int \<Rightarrow> int" where
  "days_from_civil y m d =
     (let y1 = (if m \<le> 2 then y - 1 else y);
          era = y1 div 400;
          yoe = y1 - era * 400;
          doy = (153 * (m + (if m > 2 then - 3 else 9)) + 2) div 5 + d - 1;
          doe = yoe * 365 + yoe div 4 - yoe div 100 + doy
      in era * 146097 + doe - 719468)"

definition civil_from_days :: "int \<Rightarrow> int \<times> int \<times> int" where
  "civil_from_days z =
     (let z1 = z + 719468;
          era = z1 div 146097;
          doe = z1 - era * 146097;
          yoe = (doe - doe div 1460 + doe div 36524 - doe div 146096) div 365;
          doy = doe - (365 * yoe + yoe div 4 - yoe div 100);
          mp = (5 * doy + 2) div 153;
          d = doy - (153 * mp + 2) div 5 + 1;
          m = (if mp < 10 then mp + 3 else mp - 9)
      in (if m \<le> 2 then yoe + era * 400 + 1 else yoe + era * 400, m, d))"

definition iso_parse :: "string \<Rightarrow> int option" where
  "iso_parse s =
     (if length s = 24 \<and> map (\<lambda>i. s ! i) [4, 7, 10, 13, 16, 19, 23] = ''--T::.Z'' then
        (case (number (substr s 0 4) 0, number (substr s 5 2) 0, number (substr s 8 2) 0,
               number (substr s 11 2) 0, number (substr s 14 2) 0, number (substr s 17 2) 0,
               number (substr s 20 3) 0) of
           (Some y, Some mo, Some d, Some h, Some mi, Some se, Some ms) \<Rightarrow>
             if 1 \<le> mo \<and> mo \<le> 12 \<and> 1 \<le> d \<and> d \<le> 31 \<and> h \<le> 23 \<and> mi \<le> 59 \<and> se \<le> 59 then
               Some ((((days_from_civil y mo d * 24 + h) * 60 + mi) * 60 + se) * 1000 + ms)
             else None
         | _ \<Rightarrow> None)
      else None)"

definition iso_format :: "int \<Rightarrow> string" where
  "iso_format t =
     (let (y, m, d) = civil_from_days (t div 86400000);
          r = t mod 86400000
      in pad4 y @ ''-'' @ pad2 m @ ''-'' @ pad2 d @ ''T''
         @ pad2 (r div 3600000) @ '':'' @ pad2 (r div 60000 mod 60) @ '':''
         @ pad2 (r div 1000 mod 60) @ ''.'' @ pad3 (r mod 1000) @ ''Z'')"

definition spec_productFile :: "product \<Rightarrow> string" where
  "spec_productFile p =
     ''gfs.t'' @ substr (iso_format (cycle_date (pcycle p))) 11 2 @ ''z.'' @ ptype p
     @ ''.f'' @ decimal (forecastHour p)"

definition spec_productRel :: "product \<Rightarrow> string" where
  "spec_productRel p =
     (let s = iso_format (cycle_date (pcycle p))
      in ''gfs.'' @ substr s 0 4 @ substr s 5 2 @ substr s 8 2 @ substr s 11 2 @ ''/''
         @ spec_productFile p)"

definition spec_layerRel :: "layer \<Rightarrow> string" where
  "spec_layerRel l =
     (if isCurrent l then ''current/current-'' @ rname (lrecipe l) @ ''.json''
      else
        (let s = iso_format (product_date (lproduct l))
         in substr s 0 4 @ ''/'' @ substr s 5 2 @ ''/'' @ substr s 8 2 @ ''/''
            @ substr s 11 2 @ substr s 14 2 @ ''-'' @ decimal (forecastHour (lproduct l)) @ ''-''
            @ rname (lrecipe l) @ ''.json''))"

definition spec_cycleOfDir :: "string \<Rightarrow> string \<Rightarrow> string \<Rightarrow> string \<Rightarrow> cycle" where
  "spec_cycleOfDir y m d h =
     (case iso_parse (y @ ''-'' @ m @ ''-'' @ d @ ''T'' @ h @ '':00:00.000Z'') of
        None \<Rightarrow> Cycle 0
      | Some t \<Rightarrow> gfs_cycle t)"

text \<open>The environment in which the network is down and the converter fails.\<close>

definition js_env :: env where
  "js_env =
     \<lparr>parseDate = iso_parse,
      toISOString = iso_format,
      productFile = spec_productFile,
      productRel = spec_productRel,
      layerRel = spec_layerRel,
      cacheControlFor = (\<lambda>l. if isCurrent l then ''public, max-age=300'' else ''public, max-age=86400''),
      cycleOfDir = spec_cycleOfDir,
      server_NOMADS = ''nomads.ncep.noaa.gov/pub/data/nccf/com/gfs/prod/'',
      server_NCEP = ''www.ftp.ncep.noaa.gov/data/nccf/com/gfs/prod/'',
      S3_LAYER_HOME = ''data/weather/'',
      S3_BUCKET = ''earth'',
      tool_download = (\<lambda>url. Rejected (Failure ''ECONNRESET'')),
      grib2json = (\<lambda>args. Resolved (1, None)),
      scraper_fetch = (\<lambda>url. Rejected (Failure ''ECONNRESET'')),
      createTemp = (\<lambda>suffix. ''/tmp/x'' @ suffix)\<rparr>"

definition js_opt :: options where
  "js_opt =
     \<lparr>gribHome = ''scratch/'',
      layerHome = ''scratch/data/weather/'',
      productType = ''1.0'',
      firstForecasts = opt_firstForecasts 1\<rparr>"

text \<open>The state in which nothing has been downloaded yet.\<close>

definition empty_world :: world where
  "empty_world =
     \<lparr>disk = Map.empty, servers = initial_servers js_env, s3 = Map.empty, requests = [], puts = []\<rparr>"

section \<open>The wording of the spec, and concrete inputs\<close>

text \<open>
  The overwrite predicate as the spec words it: the metadata has no \<open>reference-time\<close>
  entry, or that entry parsed as a date is strictly older than the layer's cycle time,
  or the layer is flagged current.
\<close>

definition spec_overwrite :: "env \<Rightarrow> layer \<Rightarrow> s3object \<Rightarrow> bool" where
  "spec_overwrite e l existing =
     (let m = (case Metadata existing of None \<Rightarrow> Map.empty | Some m \<Rightarrow> m)
      in (case m ''reference-time'' of
            None \<Rightarrow> True
          | Some s \<Rightarrow> (case parseDate e s of
                         None \<Rightarrow> False
                       | Some t \<Rightarrow> t < cycle_date (pcycle (lproduct l))))
         \<or> isCurrent l)"






text \<open>
  The current-pointer manager in the words of the spec: the anchor layer \<open>k\<close> cycles
  before the cycle of "now", the dated file and the alias file of a recipe for a
  product, the key of the alias layer, and the condition that the alias files are
  distinct from each other and from the dated files.
\<close>

definition recipes :: "recipe list" where
  "recipes = map snd LAYER_RECIPES"

definition anchor_layer :: "options \<Rightarrow> int \<Rightarrow> nat \<Rightarrow> layer" where
  "anchor_layer opt now k =
     (layer_previous ^^ k) (gfs_layer wi1000 (gfs_product (productType opt) (gfs_cycle now) 0) False)"

definition dated_file :: "env \<Rightarrow> options \<Rightarrow> product \<Rightarrow> recipe \<Rightarrow> string" where
  "dated_file e opt p r = fs_path (layer_path e (gfs_layer r p False) (layerHome opt))"

definition alias_file :: "env \<Rightarrow> options \<Rightarrow> product \<Rightarrow> recipe \<Rightarrow> string" where
  "alias_file e opt p r = fs_path (layer_path e (gfs_layer r p True) (layerHome opt))"

definition alias_key :: "env \<Rightarrow> product \<Rightarrow> recipe \<Rightarrow> string" where
  "alias_key e p r = layer_path e (gfs_layer r p True) (S3_LAYER_HOME e)"

definition aliases_apart :: "env \<Rightarrow> options \<Rightarrow> product \<Rightarrow> bool" where
  "aliases_apart e opt p =
     (list_all (\<lambda>r. list_all (\<lambda>r'. alias_file e opt p r \<noteq> dated_file e opt p r') recipes) recipes
      \<and> distinct (map (alias_file e opt p) recipes))"



text \<open>The cycle of 2021-01-01T00:00Z, its first product and the anchor layer of that product.\<close>

definition cycle0 :: cycle where
  "cycle0 = gfs_cycle 1609459200000"

definition product0 :: product where
  "product0 = gfs_product ''1.0'' cycle0 0"

definition layer0 :: layer where
  "layer0 = gfs_layer wi1000 product0 False"

text \<open>A remote object whose \<open>reference-time\<close> entry is the given string.\<close>

definition remote_with :: "string \<Rightarrow> s3object" where
  "remote_with s = \<lparr>Metadata = Some [''reference-time'' \<mapsto> s], Body = Json [], CacheControl = []\<rparr>"

text \<open>The state in which the product of \<open>cycle0\<close> has been downloaded.\<close>

definition world_downloaded :: world where
  "world_downloaded =
     empty_world\<lparr>disk := [fs_path (product_path js_env product0 (gribHome js_opt)) \<mapsto> Grib ''GRIB'']\<rparr>"

text \<open>The environment in which every transfer ends with the status 404.\<close>

definition env_404 :: env where
  "env_404 =
     js_env\<lparr>tool_download :=
       (\<lambda>url. Resolved (\<lparr>statusCode = 404, received = 0, duration = 1\<rparr>, []))\<rparr>"

text \<open>A record whose header carries the given reference time, for forecast hour 0.\<close>

definition record_of :: "string \<Rightarrow> jrecord" where
  "record_of s = \<lparr>header = \<lparr>refTime = s, forecastTime = 0\<rparr>, rdata = ''[]'', meta_date = None\<rparr>"











text \<open>
  "Now" is 2021-01-01T05:00Z. In the first state the seven layers of \<open>product0\<close> have
  been extracted and the content store holds an alias of the anchor recipe with a
  later reference time; in the second only the layer of the anchor recipe is on disk.
\<close>

definition now0 :: int where
  "now0 = 1609477200000"

definition layer_file_of :: "recipe \<Rightarrow> filedata" where
  "layer_file_of r = Json [(record_of ''2021-01-01T00:00:00.000Z'')\<lparr>rdata := rname r\<rparr>]"

definition world_extracted :: world where
  "world_extracted =
     empty_world
       \<lparr>disk := map_of (map (\<lambda>r. (dated_file js_env js_opt product0 r, layer_file_of r)) recipes),
        s3 := [(S3_BUCKET js_env, alias_key js_env product0 wi1000)
                 \<mapsto> remote_with ''2021-06-01T00:00:00.000Z'']\<rparr>"

definition world_anchor_only :: world where
  "world_anchor_only =
     empty_world\<lparr>disk := [dated_file js_env js_opt product0 wi1000 \<mapsto> layer_file_of wi1000]\<rparr>"

section \<open>Properties of the server pool and the fetch stage\<close>

lemma wi1000_recipe: "map_of LAYER_RECIPES ''wi1000'' = Some wi1000"
  by (simp add: LAYER_RECIPES_def wi1000_def)

lemma butlast_neq: "xs \<noteq> [] \<Longrightarrow> butlast xs \<noteq> xs"
  by (induction xs) (auto split: if_splits)

lemma download_fulfilled:
  assumes "\<not> existsSync w (product_path e p (gribHome opt))"
    and "tool_download e (product_path e p (''http://'' @ fst (nextServer e w))) = Resolved (result, body)"
  shows "fst (download e opt p w) = Resolved p"
    and "servers w \<noteq> [] \<Longrightarrow> servers (snd (download e opt p w)) = servers w"
    and "statusCode result \<ge> 300 \<Longrightarrow> disk (snd (download e opt p w)) = disk w"
  using assms
  by (auto simp: download_def nextServer_def releaseServer_def Let_def)

lemma checkProductsExist_servers:
  "servers (snd (checkProductsExist e url dir pt fs w)) = servers w"
  by (simp add: checkProductsExist_def Let_def split: promise.splits)

lemma check_servers:
  "servers (snd (check e url pt fs dirs i w)) = servers w"
proof (induction i arbitrary: w)
  case 0
  then show ?case by simp
next
  case (Suc i)
  show ?case
  proof (cases "checkProductsExist e url (dirs ! i) pt fs w")
    case (Pair r w')
    with checkProductsExist_servers [of e url "dirs ! i" pt fs w]
    have "servers w' = servers w" by simp
    with Pair Suc.IH [of w'] show ?thesis
      by (simp split: promise.splits option.splits)
  qed
qed

lemma inspectRecentCycles_servers:
  "servers (snd (inspectRecentCycles e url pt fs w)) = servers w"
  by (simp add: inspectRecentCycles_def Let_def check_servers split: promise.splits)

text \<open>
  \<open>findMostRecent\<close> gives its server back in \<open>ensure\<close>: after it the pool is what it
  was, whether the discovery was resolved or rejected.
\<close>

lemma findMostRecent_releases:
  assumes "servers w \<noteq> []"
  shows "servers (snd (findMostRecent e opt w)) = servers w"
proof -
  obtain r w2 where i: "inspectRecentCycles e (''http://'' @ last (servers w)) (productType opt)
      (firstForecasts opt) (w\<lparr>servers := butlast (servers w)\<rparr>) = (r, w2)"
    by (cases "inspectRecentCycles e (''http://'' @ last (servers w)) (productType opt)
      (firstForecasts opt) (w\<lparr>servers := butlast (servers w)\<rparr>)")
  have "servers w2 = butlast (servers w)"
    using inspectRecentCycles_servers [of e "''http://'' @ last (servers w)" "productType opt"
      "firstForecasts opt" "w\<lparr>servers := butlast (servers w)\<rparr>"] i
    by simp
  with assms i show ?thesis
    by (simp add: findMostRecent_def nextServer_def releaseServer_def)
qed

text \<open>
  C3. The claim: a fetch that takes a server from the pool gives it back after the
  attempt on every outcome, a rejected transfer included. The code gives the server
  back in the handler of the fulfilled transfer only: when the transfer is rejected,
  the pool after the fetch is the pool without the server that was taken.
\<close>

theorem download_rejected_keeps_server:
  assumes "\<not> existsSync w (product_path e p (gribHome opt))"
    and "servers w \<noteq> []"
    and "tool_download e (product_path e p (''http://'' @ last (servers w))) = Rejected x"
  shows "servers (snd (download e opt p w)) = butlast (servers w)
    \<and> servers (snd (download e opt p w)) \<noteq> servers w"
  using assms butlast_neq [of "servers w"]
  by (auto simp: download_def nextServer_def releaseServer_def Let_def)

theorem download_rejected_keeps_server_witness:
  "servers empty_world = [server_NOMADS js_env, server_NCEP js_env]
   \<and> servers (snd (download js_env js_opt product0 empty_world)) = [server_NOMADS js_env]"
proof -
  have h: "\<not> existsSync empty_world (product_path js_env product0 (gribHome js_opt))"
    "servers empty_world \<noteq> []"
    "tool_download js_env (product_path js_env product0 (''http://'' @ last (servers empty_world)))
       = Rejected (Failure ''ECONNRESET'')"
    by code_simp+
  have s: "servers empty_world = [server_NOMADS js_env, server_NCEP js_env]"
    by (simp add: empty_world_def initial_servers_def)
  show ?thesis using download_rejected_keeps_server [OF h] s by simp
qed

text \<open>
  C4, as amended. For every product whose local file is absent: when the transfer is
  fulfilled, whatever its status, the fetch is resolved with the product, and with a
  status of 300 or more no file is written; when the transfer is rejected, the fetch
  is rejected with the same reason.
\<close>

theorem download_transfer_outcomes:
  assumes "\<not> existsSync w (product_path e p (gribHome opt))"
  shows "(\<forall>result body.
            tool_download e (product_path e p (''http://'' @ fst (nextServer e w))) = Resolved (result, body)
            \<longrightarrow> fst (download e opt p w) = Resolved p
              \<and> (statusCode result \<ge> 300 \<longrightarrow> disk (snd (download e opt p w)) = disk w))
     \<and> (\<forall>x. tool_download e (product_path e p (''http://'' @ fst (nextServer e w))) = Rejected x
            \<longrightarrow> fst (download e opt p w) = Rejected x)"
  using assms
  by (auto simp: download_def nextServer_def releaseServer_def Let_def)

theorem download_transfer_outcomes_witness:
  "fst (download env_404 js_opt product0 empty_world) = Resolved product0
   \<and> disk (snd (download env_404 js_opt product0 empty_world)) = disk empty_world"
proof -
  have h: "\<not> existsSync empty_world (product_path env_404 product0 (gribHome js_opt))"
    by code_simp
  have t: "tool_download env_404 u = Resolved (\<lparr>statusCode = 404, received = 0, duration = 1\<rparr>, [])" for u
    by (simp add: env_404_def)
  show ?thesis using download_transfer_outcomes [OF h] t by simp
qed

text \<open>
  C4, as stated, fails where the transfer itself is rejected: the local file is absent
  and the fetch is not resolved.
\<close>

theorem download_rejected_transfer_counterexample:
  "\<not> existsSync empty_world (product_path js_env product0 (gribHome js_opt))
   \<and> \<not> resolved (fst (download js_env js_opt product0 empty_world))"
  by code_simp

text \<open>
  C8. For every product whose local file exists, the fetch is resolved with the product
  and leaves the state as it was: no server is taken from the pool and no request is
  sent. A second fetch of the same product does the same.
\<close>

theorem download_existing_idempotent:
  assumes "existsSync w (product_path e p (gribHome opt))"
  shows "download e opt p w = (Resolved p, w)
     \<and> servers (snd (download e opt p w)) = servers w
     \<and> requests (snd (download e opt p w)) = requests w
     \<and> download e opt p (snd (download e opt p w)) = (Resolved p, w)"
  using assms by (simp add: download_def)

theorem download_existing_idempotent_witness:
  "download js_env js_opt product0 world_downloaded = (Resolved product0, world_downloaded)
   \<and> servers (snd (download js_env js_opt product0 world_downloaded)) = servers world_downloaded
   \<and> requests (snd (download js_env js_opt product0 world_downloaded)) = requests world_downloaded
   \<and> download js_env js_opt product0 (snd (download js_env js_opt product0 world_downloaded))
       = (Resolved product0, world_downloaded)"
proof -
  have "existsSync world_downloaded (product_path js_env product0 (gribHome js_opt))"
    by code_simp
  then show ?thesis by (rule download_existing_idempotent)
qed

section \<open>Properties of the extract stage\<close>















section \<open>Properties of the publish stage\<close>

text \<open>
  C1, as amended. The overwrite predicate holds if and only if the metadata has no
  \<open>reference-time\<close> entry or an empty one, or the entry parsed as a date is strictly
  older than the layer's cycle time, or the layer is flagged current.
\<close>

theorem isNewerThan_overwrite_iff:
  "isNewerThan e l existing \<longleftrightarrow>
     (let entry = (case Metadata existing of None \<Rightarrow> Map.empty | Some m \<Rightarrow> m) ''reference-time''
      in entry = None \<or> entry = Some []
         \<or> (\<exists>s t. entry = Some s \<and> parseDate e s = Some t \<and> t < cycle_date (pcycle (lproduct l)))
         \<or> isCurrent l)"
  by (auto simp: isNewerThan_def Let_def truthy_def js_lt_def new_Date_def split: option.splits)

theorem isNewerThan_overwrite_iff_witness:
  "isNewerThan js_env layer0 (remote_with ''2020-12-31T18:00:00.000Z'')
   \<and> \<not> isNewerThan js_env layer0 (remote_with ''2021-01-01T00:00:00.000Z'')"
proof -
  have p: "parseDate js_env ''2020-12-31T18:00:00.000Z'' = Some 1609437600000"
    "parseDate js_env ''2021-01-01T00:00:00.000Z'' = Some 1609459200000"
    by code_simp+
  have c: "cycle_date (pcycle (lproduct layer0)) = 1609459200000" "\<not> isCurrent layer0"
    by code_simp+
  show ?thesis
    using isNewerThan_overwrite_iff [of js_env layer0 "remote_with ''2020-12-31T18:00:00.000Z''"]
      isNewerThan_overwrite_iff [of js_env layer0 "remote_with ''2021-01-01T00:00:00.000Z''"]
    by (simp add: remote_with_def p c)
qed

text \<open>
  C1, as stated, fails for a \<open>reference-time\<close> entry that is the empty string: the
  entry is there and is no date, the layer is not current, and the predicate holds.
\<close>

theorem isNewerThan_empty_entry_counterexample:
  "isNewerThan js_env layer0 (remote_with []) \<and> \<not> spec_overwrite js_env layer0 (remote_with [])"
  by code_simp

text \<open>
  C10. Publishing an absent layer returns \<open>null\<close> and changes nothing; so does
  publishing a layer whose local file does not exist, and nothing is uploaded. A list
  of such layers goes through the publish stage as a list of \<open>null\<close> results.
\<close>

theorem pushLayer_absent_work:
  "pushLayer e opt None w = (Resolved None, w)
   \<and> (\<not> existsSync w (layer_path e l (layerHome opt)) \<longrightarrow> pushLayer e opt (Some l) w = (Resolved None, w))
   \<and> ((\<forall>lo \<in> set ls. case lo of None \<Rightarrow> True
                       | Some l' \<Rightarrow> \<not> existsSync w (layer_path e l' (layerHome opt)))
        \<longrightarrow> pushLayers e opt ls w = (Resolved (map (\<lambda>lo. None) ls), w))"
proof -
  have a: "pushLayer e opt None w = (Resolved None, w)"
    by (simp add: pushLayer_def)
  have b: "\<not> existsSync w (layer_path e k (layerHome opt)) \<Longrightarrow> pushLayer e opt (Some k) w = (Resolved None, w)" for k
    by (simp add: pushLayer_def)
  have c: "(\<forall>lo \<in> set ls. case lo of None \<Rightarrow> True
                       | Some l' \<Rightarrow> \<not> existsSync w (layer_path e l' (layerHome opt)))
        \<Longrightarrow> when_map (pushLayer e opt) ls w = (Resolved (map (\<lambda>lo. None) ls), w)"
  proof (induction ls)
    case Nil
    then show ?case by simp
  next
    case (Cons lo ls)
    then have "pushLayer e opt lo w = (Resolved None, w)"
      by (cases lo) (simp_all add: a b)
    with Cons show ?case by (simp add: settle_def)
  qed
  show ?thesis using a b c by (simp add: pushLayers_def)
qed

theorem pushLayer_absent_work_witness:
  "pushLayer js_env js_opt None empty_world = (Resolved None, empty_world)
   \<and> pushLayer js_env js_opt (Some layer0) empty_world = (Resolved None, empty_world)
   \<and> pushLayers js_env js_opt [None, Some layer0, None] empty_world
       = (Resolved [None, None, None], empty_world)"
proof -
  have h: "\<not> existsSync empty_world (layer_path js_env layer0 (layerHome js_opt))"
    by code_simp
  show ?thesis
    using pushLayer_absent_work [of js_env js_opt empty_world layer0 "[None, Some layer0, None]"] h
    by simp
qed

section \<open>Properties of discovery\<close>

text \<open>
  The forecast hours of the first cycle are distinct, and so are the expected file
  names when distinct forecast hours give distinct names.
\<close>

lemma opt_firstForecasts_distinct: "distinct (opt_firstForecasts depth)"
proof -
  have "inj_on (\<lambda>i. i * 3) (set [1..<Suc depth])"
    by (rule inj_onI) simp
  then have "distinct (map (\<lambda>i. i * 3) [1..<Suc depth])"
    by (simp add: distinct_map)
  moreover have "(0::nat) \<notin> set (map (\<lambda>i. i * 3) [1..<Suc depth])"
    by auto
  ultimately show ?thesis
    by (simp add: opt_firstForecasts_def)
qed

lemma expectedFiles_distinct:
  assumes "inj_on (\<lambda>forecastHour. productFile e (gfs_product pt c forecastHour)) (set fs)"
    and "distinct fs"
  shows "distinct (expectedFiles e pt c fs)"
  using assms by (simp add: expectedFiles_def distinct_map)


















section \<open>Properties of the current-pointer manager\<close>

lemma previous_date:
  "product_date (lproduct ((layer_previous ^^ k) l)) = product_date (lproduct l) - int k * (6 * HOUR)"
  by (induction k)
     (simp_all add: layer_previous_def product_previous_def product_date_def cycle_previous_def algebra_simps)

lemma cycle_brackets_now:
  shows "cycle_date (gfs_cycle now) \<le> now" and "now < cycle_date (cycle_next (gfs_cycle now))"
proof -
  have "0 \<le> now mod (6 * HOUR)" and "now mod (6 * HOUR) < 6 * HOUR"
    by (simp_all add: HOUR_def)
  then show "cycle_date (gfs_cycle now) \<le> now" and "now < cycle_date (cycle_next (gfs_cycle now))"
    by (simp_all add: gfs_cycle_def cycle_next_def)
qed

lemma backToNow_start:
  "backToNow now (gfs_layer wi1000 (gfs_product pt (cycle_next (gfs_cycle now)) 0) False)
     = gfs_layer wi1000 (gfs_product pt (gfs_cycle now) 0) False"
proof -
  let ?first = "gfs_layer wi1000 (gfs_product pt (cycle_next (gfs_cycle now)) 0) False"
  let ?a = "gfs_layer wi1000 (gfs_product pt (gfs_cycle now) 0) False"
  have p: "layer_previous ?first = ?a"
    by (simp add: layer_previous_def product_previous_def gfs_layer_def gfs_product_def
        cycle_previous_def cycle_next_def)
  have f: "product_date (lproduct ?first) > now"
    using cycle_brackets_now(2) [of now]
    by (simp add: product_date_def gfs_layer_def gfs_product_def)
  have a: "\<not> product_date (lproduct ?a) > now"
    using cycle_brackets_now(1) [of now]
    by (simp add: product_date_def gfs_layer_def gfs_product_def)
  have "backToNow now ?first = backToNow now (layer_previous ?first)"
    using f by (subst backToNow.simps) simp
  also have "\<dots> = backToNow now ?a" by (simp only: p)
  also have "\<dots> = ?a"
    using a by (subst backToNow.simps) simp
  finally show ?thesis .
qed

lemma searchDisk_found:
  assumes "existsSync w (layer_path e ((layer_previous ^^ k) l) (layerHome opt))"
    and "\<forall>j<k. \<not> existsSync w (layer_path e ((layer_previous ^^ j) l) (layerHome opt))"
    and "k = 0 \<or> tda \<le> product_date (lproduct ((layer_previous ^^ k) l))"
  shows "searchDisk e opt w tda l = Some ((layer_previous ^^ k) l)"
  using assms
proof (induction k arbitrary: l)
  case 0
  then show ?case by (subst searchDisk.simps) simp
next
  case (Suc k)
  from Suc.prems(2) have no: "\<not> existsSync w (layer_path e l (layerHome opt))"
    by (metis funpow_0 zero_less_Suc)
  from Suc.prems(3) have "tda \<le> product_date (lproduct ((layer_previous ^^ Suc k) l))" by simp
  then have in_window: "tda \<le> product_date (lproduct (layer_previous l))"
    using previous_date [of "Suc k" l] previous_date [of 1 l]
    by (simp add: HOUR_def algebra_simps)
  have sw: "(layer_previous ^^ j) (layer_previous l) = (layer_previous ^^ Suc j) l" for j
    by (simp add: funpow_swap1)
  have "searchDisk e opt w tda (layer_previous l) = Some ((layer_previous ^^ k) (layer_previous l))"
  proof (rule Suc.IH)
    show "existsSync w (layer_path e ((layer_previous ^^ k) (layer_previous l)) (layerHome opt))"
      using Suc.prems(1) by (simp only: sw)
    show "\<forall>j<k. \<not> existsSync w (layer_path e ((layer_previous ^^ j) (layer_previous l)) (layerHome opt))"
      using Suc.prems(2) by (auto simp only: sw)
    show "k = 0 \<or> tda \<le> product_date (lproduct ((layer_previous ^^ k) (layer_previous l)))"
      using Suc.prems(3) by (simp only: sw) simp
  qed
  with no in_window show ?case
    by (subst searchDisk.simps) (simp add: funpow_swap1)
qed

lemma searchDisk_none:
  assumes "\<forall>j. j = 0 \<or> tda \<le> product_date (lproduct ((layer_previous ^^ j) l))
             \<longrightarrow> \<not> existsSync w (layer_path e ((layer_previous ^^ j) l) (layerHome opt))"
  shows "searchDisk e opt w tda l = None"
  using assms
proof (induction e opt w tda l rule: searchDisk.induct)
  case (1 e opt w tda l)
  from "1.prems" have no: "\<not> existsSync w (layer_path e l (layerHome opt))"
    by (metis funpow_0)
  show ?case
  proof (cases "product_date (lproduct (layer_previous l)) < tda")
    case True
    with no show ?thesis by (subst searchDisk.simps) simp
  next
    case False
    have sw: "(layer_previous ^^ j) (layer_previous l) = (layer_previous ^^ Suc j) l" for j
      by (simp add: funpow_swap1)
    have "searchDisk e opt w tda (layer_previous l) = None"
    proof (rule "1.IH" [OF no False])
      show "\<forall>j. j = 0 \<or> tda \<le> product_date (lproduct ((layer_previous ^^ j) (layer_previous l)))
             \<longrightarrow> \<not> existsSync w (layer_path e ((layer_previous ^^ j) (layer_previous l)) (layerHome opt))"
      proof (intro allI impI)
        fix j
        assume "j = 0 \<or> tda \<le> product_date (lproduct ((layer_previous ^^ j) (layer_previous l)))"
        then have "tda \<le> product_date (lproduct ((layer_previous ^^ Suc j) l))"
          using False by (cases "j = 0") (simp_all only: sw, simp_all)
        with "1.prems" show "\<not> existsSync w (layer_path e ((layer_previous ^^ j) (layer_previous l)) (layerHome opt))"
          by (simp only: sw) blast
      qed
    qed
    with no False show ?thesis by (subst searchDisk.simps) simp
  qed
qed

lemma copyLayer_ok:
  assumes "disk w (dated_file e opt p r) = Some bytes"
    and "alias_file e opt p r \<noteq> dated_file e opt p r"
  shows "copyLayer e opt p r w =
     (Resolved (gfs_layer r p True), w\<lparr>disk := (disk w)(alias_file e opt p r \<mapsto> bytes)\<rparr>)"
  using assms
  by (simp add: copyLayer_def Let_def existsSync_def unlinkSync_def dated_file_def alias_file_def)

lemma copy_all:
  assumes "\<forall>r \<in> set rs. disk w (dated_file e opt p r) \<noteq> None"
    and "\<forall>r \<in> set rs. \<forall>r' \<in> set rs. alias_file e opt p r \<noteq> dated_file e opt p r'"
    and "distinct (map (alias_file e opt p) rs)"
  shows "\<exists>w'. when_map (copyLayer e opt p) rs w = (Resolved (map (\<lambda>r. gfs_layer r p True) rs), w')
     \<and> (\<forall>r \<in> set rs. disk w' (alias_file e opt p r) = disk w (dated_file e opt p r))
     \<and> (\<forall>k. k \<notin> alias_file e opt p ` set rs \<longrightarrow> disk w' k = disk w k)
     \<and> s3 w' = s3 w \<and> puts w' = puts w"
  using assms
proof (induction rs arbitrary: w)
  case Nil
  then show ?case by simp
next
  case (Cons r rs)
  from Cons.prems(1) obtain bytes where b: "disk w (dated_file e opt p r) = Some bytes"
    by auto
  from Cons.prems(2) have ne: "alias_file e opt p r \<noteq> dated_file e opt p r"
    by simp
  let ?w1 = "w\<lparr>disk := (disk w)(alias_file e opt p r \<mapsto> bytes)\<rparr>"
  have c: "copyLayer e opt p r w = (Resolved (gfs_layer r p True), ?w1)"
    using b ne by (rule copyLayer_ok)
  have same: "disk ?w1 (dated_file e opt p r') = disk w (dated_file e opt p r')" if "r' \<in> set (r # rs)" for r'
    using Cons.prems(2) that by auto
  have "\<exists>w'. when_map (copyLayer e opt p) rs ?w1 = (Resolved (map (\<lambda>r. gfs_layer r p True) rs), w')
     \<and> (\<forall>r \<in> set rs. disk w' (alias_file e opt p r) = disk ?w1 (dated_file e opt p r))
     \<and> (\<forall>k. k \<notin> alias_file e opt p ` set rs \<longrightarrow> disk w' k = disk ?w1 k)
     \<and> s3 w' = s3 ?w1 \<and> puts w' = puts ?w1"
  proof (rule Cons.IH)
    show "\<forall>r \<in> set rs. disk ?w1 (dated_file e opt p r) \<noteq> None"
      using Cons.prems(1) same by simp
    show "\<forall>r \<in> set rs. \<forall>r' \<in> set rs. alias_file e opt p r \<noteq> dated_file e opt p r'"
      using Cons.prems(2) by simp
    show "distinct (map (alias_file e opt p) rs)"
      using Cons.prems(3) by simp
  qed
  then obtain w' where w': "when_map (copyLayer e opt p) rs ?w1 = (Resolved (map (\<lambda>r. gfs_layer r p True) rs), w')"
    and al: "\<forall>r \<in> set rs. disk w' (alias_file e opt p r) = disk ?w1 (dated_file e opt p r)"
    and ot: "\<forall>k. k \<notin> alias_file e opt p ` set rs \<longrightarrow> disk w' k = disk ?w1 k"
    and rest: "s3 w' = s3 ?w1" "puts w' = puts ?w1"
    by blast
  have run: "when_map (copyLayer e opt p) (r # rs) w = (Resolved (map (\<lambda>r. gfs_layer r p True) (r # rs)), w')"
    using c w' by (simp add: settle_def)
  have fresh: "alias_file e opt p r \<notin> alias_file e opt p ` set rs"
    using Cons.prems(3) by simp
  have a1: "disk w' (alias_file e opt p r) = disk w (dated_file e opt p r)"
    using ot fresh b by simp
  have a2: "disk w' (alias_file e opt p r') = disk w (dated_file e opt p r')" if "r' \<in> set rs" for r'
    using al same that by simp
  have a3: "disk w' k = disk w k" if "k \<notin> alias_file e opt p ` set (r # rs)" for k
    using ot that by simp
  from run a1 a2 a3 rest show ?case by auto
qed

lemma pushLayer_current:
  assumes "isCurrent l" and "disk w (fs_path (layer_path e l (layerHome opt))) = Some bytes"
  shows "\<exists>w'. pushLayer e opt (Some l) w = (Resolved (Some True), w')
     \<and> puts w' = puts w @ [(layer_path e l (S3_LAYER_HOME e), bytes)] \<and> disk w' = disk w"
proof -
  have "(case s3 w (S3_BUCKET e, layer_path e l (S3_LAYER_HOME e)) of
           None \<Rightarrow> True | Some existing \<Rightarrow> isNewerThan e l existing)"
    using assms(1) by (simp add: isNewerThan_def Let_def split: option.splits)
  with assms(2) show ?thesis
    by (simp add: pushLayer_def uploadFile_def Let_def existsSync_def)
qed

lemma push_all:
  assumes "\<forall>l \<in> set ls. isCurrent l \<and> disk w (fs_path (layer_path e l (layerHome opt))) \<noteq> None"
  shows "\<exists>w'. pushLayers e opt (map Some ls) w = (Resolved (map (\<lambda>l. Some True) ls), w')
     \<and> puts w' = puts w @ map (\<lambda>l. (layer_path e l (S3_LAYER_HOME e),
                                   the (disk w (fs_path (layer_path e l (layerHome opt)))))) ls
     \<and> disk w' = disk w"
  using assms
proof (induction ls arbitrary: w)
  case Nil
  then show ?case by (simp add: pushLayers_def)
next
  case (Cons l ls)
  then obtain bytes where b: "disk w (fs_path (layer_path e l (layerHome opt))) = Some bytes"
    by auto
  from Cons.prems have cur: "isCurrent l" by simp
  from pushLayer_current [OF cur b] obtain w1
    where p1: "pushLayer e opt (Some l) w = (Resolved (Some True), w1)"
      and u1: "puts w1 = puts w @ [(layer_path e l (S3_LAYER_HOME e), bytes)]"
      and d1: "disk w1 = disk w"
    by blast
  have "\<forall>l \<in> set ls. isCurrent l \<and> disk w1 (fs_path (layer_path e l (layerHome opt))) \<noteq> None"
    using Cons.prems d1 by simp
  from Cons.IH [OF this] obtain w'
    where pr: "pushLayers e opt (map Some ls) w1 = (Resolved (map (\<lambda>l. Some True) ls), w')"
      and ur: "puts w' = puts w1 @ map (\<lambda>l. (layer_path e l (S3_LAYER_HOME e),
                                   the (disk w1 (fs_path (layer_path e l (layerHome opt)))))) ls"
      and dr: "disk w' = disk w1"
    by blast
  have "pushLayers e opt (map Some (l # ls)) w = (Resolved (map (\<lambda>l. Some True) (l # ls)), w')"
    using p1 pr by (simp add: pushLayers_def settle_def)
  with u1 ur d1 dr b show ?case by simp
qed

lemma anchor_zero_in_window:
  "now - 3 * 24 * 60 * 60 * 1000 \<le> product_date (lproduct (anchor_layer opt now 0))"
proof -
  have "now mod (6 * HOUR) < 6 * HOUR" by (simp add: HOUR_def)
  then show ?thesis
    by (simp add: anchor_layer_def gfs_layer_def gfs_product_def product_date_def gfs_cycle_def HOUR_def)
qed

lemma copyCurrent_rejects:
  assumes "\<forall>k. now - 3 * 24 * 60 * 60 * 1000 \<le> product_date (lproduct (anchor_layer opt now k))
             \<longrightarrow> \<not> existsSync w (layer_path e (anchor_layer opt now k) (layerHome opt))"
  shows "copyCurrent e opt now w = (Rejected (Message ''No recent layers found.''), w)"
proof -
  let ?a = "gfs_layer wi1000 (gfs_product (productType opt) (gfs_cycle now) 0) False"
  have "searchDisk e opt w (now - 3 * 24 * 60 * 60 * 1000) ?a = None"
  proof (rule searchDisk_none, intro allI impI)
    fix j
    assume "j = 0 \<or> now - 3 * 24 * 60 * 60 * 1000 \<le> product_date (lproduct ((layer_previous ^^ j) ?a))"
    then have "now - 3 * 24 * 60 * 60 * 1000 \<le> product_date (lproduct (anchor_layer opt now j))"
      using anchor_zero_in_window [of now opt] by (auto simp: anchor_layer_def)
    with assms show "\<not> existsSync w (layer_path e ((layer_previous ^^ j) ?a) (layerHome opt))"
      by (simp add: anchor_layer_def)
  qed
  then show ?thesis
    by (simp add: copyCurrent_def Let_def backToNow_start)
qed

lemma copyCurrent_copies:
  assumes found: "existsSync w (layer_path e (anchor_layer opt now k) (layerHome opt))"
    and latest: "\<forall>j<k. \<not> existsSync w (layer_path e (anchor_layer opt now j) (layerHome opt))"
    and window: "now - 3 * 24 * 60 * 60 * 1000 \<le> product_date (lproduct (anchor_layer opt now k))"
    and hdr: "readJSONSync w (layer_path e (anchor_layer opt now k) (''./'' @ layerHome opt)) = Some (r # rs)"
    and date: "parseDate e (refTime (header r)) = Some t"
    and p: "p = gfs_product (productType opt) (gfs_cycle t) (forecastTime (header r))"
    and files: "\<forall>rc \<in> set recipes. disk w (dated_file e opt p rc) \<noteq> None"
    and apart: "aliases_apart e opt p"
  shows "fst (copyCurrent e opt now w) = Resolved (replicate 7 (Some True))
     \<and> (\<forall>rc \<in> set recipes.
           disk (snd (copyCurrent e opt now w)) (alias_file e opt p rc) = disk w (dated_file e opt p rc))
     \<and> puts (snd (copyCurrent e opt now w)) =
         puts w @ map (\<lambda>rc. (alias_key e p rc, the (disk w (dated_file e opt p rc)))) recipes"
proof -
  let ?a = "gfs_layer wi1000 (gfs_product (productType opt) (gfs_cycle now) 0) False"
  have s: "searchDisk e opt w (now - 3 * 24 * 60 * 60 * 1000) ?a = Some (anchor_layer opt now k)"
    unfolding anchor_layer_def
    using found latest window by (intro searchDisk_found) (simp_all add: anchor_layer_def)
  from copy_all [of recipes w e opt p] files apart
  obtain w1 where c: "when_map (copyLayer e opt p) recipes w = (Resolved (map (\<lambda>r. gfs_layer r p True) recipes), w1)"
    and al: "\<forall>rc \<in> set recipes. disk w1 (alias_file e opt p rc) = disk w (dated_file e opt p rc)"
    and u1: "puts w1 = puts w"
    by (auto simp: aliases_apart_def list_all_iff)
  have ex: "\<forall>l \<in> set (map (\<lambda>r. gfs_layer r p True) recipes).
      isCurrent l \<and> disk w1 (fs_path (layer_path e l (layerHome opt))) \<noteq> None"
    using al files by (auto simp: gfs_layer_def alias_file_def)
  from push_all [OF ex] obtain w2
    where ps: "pushLayers e opt (map Some (map (\<lambda>r. gfs_layer r p True) recipes)) w1
        = (Resolved (map (\<lambda>l. Some True) (map (\<lambda>r. gfs_layer r p True) recipes)), w2)"
      and u2: "puts w2 = puts w1 @ map (\<lambda>l. (layer_path e l (S3_LAYER_HOME e),
                  the (disk w1 (fs_path (layer_path e l (layerHome opt))))))
               (map (\<lambda>r. gfs_layer r p True) recipes)"
      and d2: "disk w2 = disk w1"
    by blast
  have run: "copyCurrent e opt now w = (Resolved (map (\<lambda>l. Some True) (map (\<lambda>r. gfs_layer r p True) recipes)), w2)"
    unfolding p recipes_def
    by (simp only: copyCurrent_def Let_def backToNow_start s option.case hdr list.case date
        c [unfolded p recipes_def] ps [unfolded p recipes_def] prod.case promise.case)
  have seven: "map (\<lambda>l. Some True) (map (\<lambda>r. gfs_layer r p True) recipes) = replicate 7 (Some True)"
    by (simp add: recipes_def LAYER_RECIPES_def numeral_eq_Suc)
  have logged: "map (\<lambda>l. (layer_path e l (S3_LAYER_HOME e),
                  the (disk w1 (fs_path (layer_path e l (layerHome opt))))))
               (map (\<lambda>r. gfs_layer r p True) recipes)
      = map (\<lambda>rc. (alias_key e p rc, the (disk w (dated_file e opt p rc)))) recipes"
    using al by (simp add: alias_key_def alias_file_def)
  from run seven have r1: "fst (copyCurrent e opt now w) = Resolved (replicate 7 (Some True))"
    by (simp only: fst_conv)
  from run d2 al have r2: "\<forall>rc \<in> set recipes.
      disk (snd (copyCurrent e opt now w)) (alias_file e opt p rc) = disk w (dated_file e opt p rc)"
    by (simp only: snd_conv)
  from run u1 u2 logged have r3: "puts (snd (copyCurrent e opt now w)) =
      puts w @ map (\<lambda>rc. (alias_key e p rc, the (disk w (dated_file e opt p rc)))) recipes"
    by (simp only: snd_conv)
  from r1 r2 r3 show ?thesis by (intro conjI)
qed

text \<open>
  C7, as amended. The search starts from the cycle just after "now" (the cycle of "now"
  is the latest one that is not in the future) and walks back cycle by cycle. When no
  anchor layer file exists for any cycle of the three-day window, the run is rejected
  with \<open>No recent layers found.\<close> and nothing changes. When the anchor layer \<open>k\<close> cycles
  back is the most recent one on disk and lies in the window, its first record has a
  \<open>refTime\<close> that parses, the dated layer file of every recipe exists for the product
  named by that header, and the alias files are distinct from each other and from the
  dated files, then the alias file of each of the seven recipes becomes a copy of its
  dated file, and every alias layer, being flagged current, is uploaded whatever the
  content store holds.
\<close>

theorem copyCurrent_alias_set:
  "cycle_date (gfs_cycle now) \<le> now \<and> now < cycle_date (cycle_next (gfs_cycle now))
   \<and> ((\<forall>k. now - 3 * 24 * 60 * 60 * 1000 \<le> product_date (lproduct (anchor_layer opt now k))
             \<longrightarrow> \<not> existsSync w (layer_path e (anchor_layer opt now k) (layerHome opt)))
        \<longrightarrow> copyCurrent e opt now w = (Rejected (Message ''No recent layers found.''), w))
   \<and> (existsSync w (layer_path e (anchor_layer opt now k) (layerHome opt))
        \<and> (\<forall>j<k. \<not> existsSync w (layer_path e (anchor_layer opt now j) (layerHome opt)))
        \<and> now - 3 * 24 * 60 * 60 * 1000 \<le> product_date (lproduct (anchor_layer opt now k))
        \<and> readJSONSync w (layer_path e (anchor_layer opt now k) (''./'' @ layerHome opt)) = Some (r # rs)
        \<and> parseDate e (refTime (header r)) = Some t
        \<and> p = gfs_product (productType opt) (gfs_cycle t) (forecastTime (header r))
        \<and> (\<forall>rc \<in> set recipes. disk w (dated_file e opt p rc) \<noteq> None)
        \<and> aliases_apart e opt p
      \<longrightarrow> fst (copyCurrent e opt now w) = Resolved (replicate 7 (Some True))
          \<and> (\<forall>rc \<in> set recipes.
                disk (snd (copyCurrent e opt now w)) (alias_file e opt p rc) = disk w (dated_file e opt p rc))
          \<and> puts (snd (copyCurrent e opt now w)) =
              puts w @ map (\<lambda>rc. (alias_key e p rc, the (disk w (dated_file e opt p rc)))) recipes
          \<and> list_all isCurrent (map (\<lambda>rc. gfs_layer rc p True) recipes)
          \<and> length recipes = 7)"
  (is "?A \<and> ?B \<and> (?H1 \<longrightarrow> ?R) \<and> (?H2 \<longrightarrow> ?C1 \<and> ?C2 \<and> ?C3 \<and> ?C4 \<and> ?C5)")
proof -
  have a: ?A and b: ?B
    using cycle_brackets_now [of now] by simp_all
  have r: "?H1 \<longrightarrow> ?R"
    using copyCurrent_rejects [of now opt w e] by (rule impI)
  have c45: ?C4 ?C5
    by (simp_all add: list_all_iff gfs_layer_def recipes_def LAYER_RECIPES_def)
  have c: "?H2 \<longrightarrow> ?C1 \<and> ?C2 \<and> ?C3 \<and> ?C4 \<and> ?C5"
  proof
    assume h: ?H2
    have "?C1 \<and> ?C2 \<and> ?C3"
    proof (rule copyCurrent_copies)
      from h show "existsSync w (layer_path e (anchor_layer opt now k) (layerHome opt))" by (elim conjE)
      from h show "\<forall>j<k. \<not> existsSync w (layer_path e (anchor_layer opt now j) (layerHome opt))" by (elim conjE)
      from h show "now - 3 * 24 * 60 * 60 * 1000 \<le> product_date (lproduct (anchor_layer opt now k))" by (elim conjE)
      from h show "readJSONSync w (layer_path e (anchor_layer opt now k) (''./'' @ layerHome opt)) = Some (r # rs)" by (elim conjE)
      from h show "parseDate e (refTime (header r)) = Some t" by (elim conjE)
      from h show "p = gfs_product (productType opt) (gfs_cycle t) (forecastTime (header r))" by (elim conjE)
      from h show "\<forall>rc \<in> set recipes. disk w (dated_file e opt p rc) \<noteq> None" by (elim conjE)
      from h show "aliases_apart e opt p" by (elim conjE)
    qed
    with c45 show "?C1 \<and> ?C2 \<and> ?C3 \<and> ?C4 \<and> ?C5" by blast
  qed
  from a b r c show ?thesis by (intro conjI)
qed

theorem copyCurrent_alias_set_witness:
  "fst (copyCurrent js_env js_opt now0 world_extracted) = Resolved (replicate 7 (Some True))
   \<and> map (\<lambda>rc. disk (snd (copyCurrent js_env js_opt now0 world_extracted))
                  (alias_file js_env js_opt product0 rc)) recipes
       = map (\<lambda>rc. Some (layer_file_of rc)) recipes
   \<and> puts (snd (copyCurrent js_env js_opt now0 world_extracted))
       = map (\<lambda>rc. (alias_key js_env product0 rc, layer_file_of rc)) recipes
   \<and> alias_key js_env product0 wi1000 = ''data/weather/current/current-wind-isobaric-1000hPa.json''
   \<and> \<not> isNewerThan js_env layer0
         (the (s3 world_extracted (S3_BUCKET js_env, alias_key js_env product0 wi1000)))"
proof -
  have h: "existsSync world_extracted (layer_path js_env (anchor_layer js_opt now0 0) (layerHome js_opt))"
    "now0 - 3 * 24 * 60 * 60 * 1000 \<le> product_date (lproduct (anchor_layer js_opt now0 0))"
    "readJSONSync world_extracted (layer_path js_env (anchor_layer js_opt now0 0) (''./'' @ layerHome js_opt))
       = Some ((record_of ''2021-01-01T00:00:00.000Z'')\<lparr>rdata := rname wi1000\<rparr> # [])"
    "parseDate js_env (refTime (header ((record_of ''2021-01-01T00:00:00.000Z'')\<lparr>rdata := rname wi1000\<rparr>)))
       = Some 1609459200000"
    "product0 = gfs_product (productType js_opt) (gfs_cycle 1609459200000)
       (forecastTime (header ((record_of ''2021-01-01T00:00:00.000Z'')\<lparr>rdata := rname wi1000\<rparr>)))"
    "\<forall>rc \<in> set recipes. disk world_extracted (dated_file js_env js_opt product0 rc) \<noteq> None"
    "aliases_apart js_env js_opt product0"
    by code_simp+
  have l: "\<forall>j<(0::nat). \<not> existsSync world_extracted (layer_path js_env (anchor_layer js_opt now0 j) (layerHome js_opt))"
    by simp
  have f: "\<forall>rc \<in> set recipes. disk world_extracted (dated_file js_env js_opt product0 rc) = Some (layer_file_of rc)"
    "puts world_extracted = []"
    "alias_key js_env product0 wi1000 = ''data/weather/current/current-wind-isobaric-1000hPa.json''"
    "\<not> isNewerThan js_env layer0
         (the (s3 world_extracted (S3_BUCKET js_env, alias_key js_env product0 wi1000)))"
    by code_simp+
  show ?thesis
    using copyCurrent_alias_set [of now0 js_opt world_extracted js_env 0
        "(record_of ''2021-01-01T00:00:00.000Z'')\<lparr>rdata := rname wi1000\<rparr>" "[]" 1609459200000 product0]
      h l f
    by simp
qed

text \<open>
  C7, as stated, fails where the anchor layer is on disk but the dated layer of another
  recipe is not: the alias of that recipe is no copy of a dated file, and the run is
  not resolved.
\<close>

theorem copyCurrent_missing_dated_file_counterexample:
  "existsSync world_anchor_only (layer_path js_env (anchor_layer js_opt now0 0) (layerHome js_opt))
   \<and> now0 - 3 * 24 * 60 * 60 * 1000 \<le> product_date (lproduct (anchor_layer js_opt now0 0))
   \<and> \<not> resolved (fst (copyCurrent js_env js_opt now0 world_anchor_only))
   \<and> disk world_anchor_only (dated_file js_env js_opt product0 (hd recipes)) = None
   \<and> disk (snd (copyCurrent js_env js_opt now0 world_anchor_only)) (alias_file js_env js_opt product0 (hd recipes))
       = Some (Grib [])"
  by code_simp

end
